theory Spec2Isabelle
  imports Complex_Main "HOL-Library.Word"
begin

unbundle bit_operations_syntax

section \<open>JavaScript values used by the service\<close>

text \<open>
  A JavaScript string is a sequence of UTF-16 code units; \<open>length\<close>, \<open>substring\<close>,
  \<open>includes\<close> and \<open>charCodeAt\<close> all count code units. ASCII literals of the source are
  written \<open>js ''...''\<close>.
\<close>

type_synonym u8 = "8 word"
type_synonym jschar = "16 word"
type_synonym jsstring = "jschar list"

definition js :: "string \<Rightarrow> jsstring" where
  "js s = map of_char s"

text \<open>
  \<open>String.prototype.includes\<close>: the argument occurs somewhere as a contiguous block
  (the empty string occurs in every string).
\<close>

fun str_includes :: "jsstring \<Rightarrow> jsstring \<Rightarrow> bool" where
  "str_includes [] t = (t = [])"
| "str_includes (c # s) t = (take (length t) (c # s) = t \<or> str_includes s t)"

text \<open>\<open>String.prototype.substring(0, n)\<close> for a literal \<open>n \<ge> 0\<close>.\<close>

definition substring0 :: "jsstring \<Rightarrow> nat \<Rightarrow> jsstring" where
  "substring0 s n = take n s"




text \<open>
  A value produced by \<open>JSON.parse\<close>. Numbers are modelled as integers (the response
  schemas of the service declare \<open>INTEGER\<close>; fractions and exponents are outside the
  model). An object is its list of members, looked up by key. A possibly
  \<open>undefined\<close> JavaScript value is a \<open>json option\<close>, \<open>None\<close> being \<open>undefined\<close>.
\<close>

datatype json =
    JNull
  | JBool bool
  | JNum int
  | JStr jsstring
  | JArr "json list"
  | JObj "(jsstring \<times> json) list"


text \<open>Truthiness of a possibly undefined value, as \<open>||\<close>, \<open>!\<close> and \<open>if\<close> test it.\<close>

fun truthy :: "json option \<Rightarrow> bool" where
  "truthy None = False"
| "truthy (Some JNull) = False"
| "truthy (Some (JBool b)) = b"
| "truthy (Some (JNum n)) = (n \<noteq> 0)"
| "truthy (Some (JStr s)) = (s \<noteq> [])"
| "truthy (Some (JArr xs)) = True"
| "truthy (Some (JObj kvs)) = True"

definition js_or :: "json option \<Rightarrow> json option \<Rightarrow> json option" where
  "js_or a b = (if truthy a then a else b)"

text \<open>Truthiness of a possibly absent string (\<open>undefined\<close>, \<open>null\<close> and \<open>""\<close> are falsy).\<close>

fun truthy_str :: "jsstring option \<Rightarrow> bool" where
  "truthy_str None = False"
| "truthy_str (Some s) = (s \<noteq> [])"

text \<open>A template placeholder \<open>${x}\<close>: an absent value prints as \<open>undefined\<close>.\<close>

fun template :: "jsstring option \<Rightarrow> jsstring" where
  "template None = js ''undefined''"
| "template (Some s) = s"

text \<open>
  Decimal notation of an integer, which is what \<open>Number.prototype.toString\<close> prints
  for integers of magnitude below \<open>10^21\<close>.
\<close>

function digits :: "nat \<Rightarrow> jsstring" where
  "digits n = (if n < 10 then [of_nat (48 + n)] else digits (n div 10) @ [of_nat (48 + n mod 10)])"
  by pat_completeness auto
termination
  by (relation "measure id") auto

definition number_toString :: "int \<Rightarrow> jsstring" where
  "number_toString n = (if n < 0 then js ''-'' @ digits (nat (- n)) else digits (nat n))"

text \<open>
  ToString of a JSON value, and the text \<open>Array.prototype.join\<close> uses for an element
  (\<open>null\<close> and \<open>undefined\<close> elements print as the empty string). An array prints as
  its elements joined by commas, an object as \<open>[object Object]\<close>.
\<close>

fun js_toString :: "json \<Rightarrow> jsstring"
  and join_element :: "json \<Rightarrow> jsstring"
  and join_elements :: "jsstring \<Rightarrow> json list \<Rightarrow> jsstring" where
  "js_toString JNull = js ''null''"
| "js_toString (JBool b) = (if b then js ''true'' else js ''false'')"
| "js_toString (JNum n) = number_toString n"
| "js_toString (JStr s) = s"
| "js_toString (JArr xs) = join_elements (js '','') xs"
| "js_toString (JObj kvs) = js ''[object Object]''"
| "join_element v = (if v = JNull then [] else js_toString v)"
| "join_elements sep [] = []"
| "join_elements sep [x] = join_element x"
| "join_elements sep (x # y # ys) = join_element x @ sep @ join_elements sep (y # ys)"

section \<open>Failures and the retry helper\<close>

text \<open>
  A thrown failure, as \<open>withRetry\<close> reads it: \<open>error.message\<close>, \<open>error.toString()\<close>,
  \<open>error.status\<close>, \<open>error.response?.status\<close>, \<open>error.error?.code\<close> and
  \<open>error.error.message\<close>. The message fields are strings when present; the status
  fields are arbitrary values. (A thrown \<open>null\<close> or \<open>undefined\<close> has no fields to
  read and is outside the model.)
\<close>

record js_error =
  message :: "jsstring option"
  toString :: jsstring
  status :: "json option"
  response_status :: "json option"
  error_code :: "json option"
  error_message :: "jsstring option"

text \<open>\<open>new Error(msg)\<close>.\<close>

definition Error :: "jsstring \<Rightarrow> js_error" where
  "Error msg =
     \<lparr>message = Some msg,
      toString = (if msg = [] then js ''Error'' else js ''Error: '' @ msg),
      status = None, response_status = None, error_code = None, error_message = None\<rparr>"

text \<open>
  The classification computed in the \<open>catch\<close> block of \<open>withRetry\<close>:
  \<^verbatim>\<open>let msg = error.message || error.toString() || '';\<close>
  \<^verbatim>\<open>if (error.error && error.error.message) msg += ' ' + error.error.message;\<close>
  \<^verbatim>\<open>const status = error.status || error.response?.status || error.error?.code;\<close>
\<close>

definition error_msg :: "js_error \<Rightarrow> jsstring" where
  "error_msg error =
     (let msg = (if truthy_str (message error) then the (message error) else toString error)
      in if truthy_str (error_message error)
         then msg @ js '' '' @ the (error_message error)
         else msg)"

definition error_status :: "js_error \<Rightarrow> json option" where
  "error_status error = js_or (js_or (status error) (response_status error)) (error_code error)"

definition isTransient :: "js_error \<Rightarrow> bool" where
  "isTransient error =
     (let msg = error_msg error; status = error_status error
      in status = Some (JNum 500) \<or>
         status = Some (JNum 503) \<or>
         status = Some (JNum 502) \<or>
         status = Some (JNum 504) \<or>
         str_includes msg (js ''Rpc failed'') \<or>
         str_includes msg (js ''xhr error'') \<or>
         str_includes msg (js ''fetch failed'') \<or>
         str_includes msg (js ''NetworkError'') \<or>
         str_includes msg (js ''Load failed'') \<or>
         str_includes msg (js ''network timeout''))"

text \<open>
  The world an asynchronous call runs in: the state of the remote provider, and the
  record of what the retry helper has done so far, oldest first: each invocation of the
  wrapped operation (\<open>Attempt\<close>) and each \<open>setTimeout\<close> wait with its delay in
  milliseconds (\<open>Wait\<close>). An operation \<open>fn\<close> may depend on that record (time has passed)
  and on the provider's state; it rejects with a failure (\<open>Inl\<close>) or resolves (\<open>Inr\<close>).
  Console output is not part of the model.
\<close>

datatype step = Attempt | Wait int

record 'p world =
  remote :: 'p
  steps :: "step list"

type_synonym ('p, 'a) operation = "step list \<Rightarrow> 'p \<Rightarrow> (js_error + 'a) \<times> 'p"

text \<open>
  \<^verbatim>\<open>async function withRetry<T>(fn, retries = 3, delay = 2000)\<close>. The retry count and
  the delay are JavaScript numbers, modelled as integers.
\<close>

function withRetry ::
  "('p, 'a) operation \<Rightarrow> int \<Rightarrow> int \<Rightarrow> 'p world \<Rightarrow> (js_error + 'a) \<times> 'p world" where
  "withRetry fn retries delay w =
     (case fn (steps w) (remote w) of
        (Inr v, p) \<Rightarrow> (Inr v, \<lparr>remote = p, steps = steps w @ [Attempt]\<rparr>)
      | (Inl error, p) \<Rightarrow>
          if retries > 0 \<and> isTransient error
          then withRetry fn (retries - 1) (delay * 2)
                 \<lparr>remote = p, steps = steps w @ [Attempt, Wait delay]\<rparr>
          else (Inl error, \<lparr>remote = p, steps = steps w @ [Attempt]\<rparr>))"
  by pat_completeness auto
termination
  by (relation "measure (\<lambda>(fn, retries, delay, w). nat retries)") auto

declare withRetry.simps [simp del]


definition default_delay :: int where
  "default_delay = 2000"

section \<open>Data model\<close>

text \<open>
  The interfaces of the service's type module. Field names carry a prefix because the
  interfaces share them: \<open>c_\<close> for \<open>Character\<close>, \<open>s_\<close> for \<open>Scene\<close>, and \<open>pc_\<close>, \<open>ps_\<close>
  for \<open>Partial<Character>\<close> and \<open>Partial<Scene>\<close>, where every field may be missing.
\<close>

record Character =
  c_id :: jsstring
  c_name :: jsstring
  c_description :: jsstring
  c_visualPrompt :: jsstring
  c_imageUrl :: "jsstring option"
  c_defaultVoice :: "jsstring option"

record Scene =
  s_id :: jsstring
  s_name :: jsstring
  s_description :: jsstring
  s_visualPrompt :: jsstring
  s_imageUrl :: "jsstring option"
  s_gridUrl :: "jsstring option"


record PartialScene =
  ps_id :: "jsstring option"
  ps_name :: "jsstring option"
  ps_description :: "jsstring option"
  ps_visualPrompt :: "jsstring option"
  ps_imageUrl :: "jsstring option"
  ps_gridUrl :: "jsstring option"

text \<open>
  \<open>ScriptPanel\<close>. The interface declares \<open>charactersPresent: string[]\<close>; the element
  type is a parameter here because \<open>analyzeScript\<close> fills the field with whatever the
  parsed response holds and casts the result (\<open>as ScriptPanel[]\<close>).
\<close>

record 'c ScriptPanel =
  panelNumber :: int
  description :: jsstring
  charactersPresent :: "'c list"
  dialogue :: "jsstring option"
  cameraAngle :: "jsstring option"

section \<open>Prompt constructors\<close>




text \<open>
  The predicate of \<open>characters.find\<close> in \<open>constructPanelPrompt\<close>:
  \<^verbatim>\<open>c => c.name === charName || charName.includes(c.name) || c.name.includes(charName)\<close>
\<close>

definition fuzzy_match :: "jsstring \<Rightarrow> Character \<Rightarrow> bool" where
  "fuzzy_match charName c \<longleftrightarrow>
     c_name c = charName \<or> str_includes charName (c_name c) \<or> str_includes (c_name c) charName"

text \<open>The body of the \<open>forEach\<close> over the panel's character names.\<close>

definition inject_character :: "Character list \<Rightarrow> jsstring \<Rightarrow> jsstring \<Rightarrow> jsstring" where
  "inject_character characters charName prompt =
     (case find (fuzzy_match charName) characters of
        Some charObj \<Rightarrow>
          prompt @ js ''\<newline>- ('' @ charName @ js ''): '' @ c_visualPrompt charObj
      | None \<Rightarrow>
          prompt @ js ''\<newline>- ('' @ charName @ js ''): Generic anime character.'')"

text \<open>
  \<open>constructPanelPrompt(panel, characters, scene?)\<close>. The panel's character list is
  an array by its type, so \<open>safeCharactersPresent\<close> is the list itself.
\<close>

definition constructPanelPrompt ::
  "jsstring ScriptPanel \<Rightarrow> Character list \<Rightarrow> Scene option \<Rightarrow> jsstring" where
  "constructPanelPrompt panel characters scene =
     (let prompt = js ''(Anime Style Masterpiece, 8k Resolution, Cinematic Composition). '';
          prompt = prompt @ js ''\<newline>[ACTION & SHOT] **'' @ template (cameraAngle panel) @
                   js ''**. '' @ description panel @ js ''. '';
          prompt = (case scene of
                      Some sc \<Rightarrow>
                        prompt @ js ''\<newline>[LOCATION] '' @ s_visualPrompt sc @
                        js '' (Name: '' @ s_name sc @ js ''). Detailed background. ''
                    | None \<Rightarrow>
                        prompt @ js ''\<newline>[LOCATION] Atmospheric background, matching the mood. '');
          safeCharactersPresent = charactersPresent panel
      in if length safeCharactersPresent > 0
         then fold (inject_character characters) safeCharactersPresent
                (prompt @ js ''\<newline>[CHARACTERS]:'')
         else prompt)"

text \<open>
  The resolution rule as the specification words it, for comparison with the source:
  an exact match of the name first, and only when there is none a roster entry whose
  name contains the panel name or is contained in it.
\<close>

definition resolve_exact_first :: "Character list \<Rightarrow> jsstring \<Rightarrow> Character option" where
  "resolve_exact_first characters charName =
     (case find (\<lambda>c. c_name c = charName) characters of
        Some c \<Rightarrow> Some c
      | None \<Rightarrow>
          find (\<lambda>c. str_includes charName (c_name c) \<or> str_includes (c_name c) charName)
            characters)"

section \<open>The provider and its responses\<close>

text \<open>
  The requests the service sends. The two analysis prompts are fixed instruction
  texts around the interpolated script (and character names); they are represented by
  constructors that record the interpolated values.
\<close>

datatype response_schema = WorldInfoSchema | PanelArraySchema

datatype aspect_ratio = Ratio_1_1 | Ratio_16_9 | Ratio_9_16 | Ratio_3_4 | Ratio_4_3

datatype request_contents =
    WorldInfoPrompt jsstring
  | StoryboardPrompt jsstring jsstring
  | PromptParts jsstring
  | SpeechParts jsstring

datatype request_config =
    JsonConfig response_schema
  | ImageConfig aspect_ratio
  | AudioConfig jsstring

record content_request =
  model :: jsstring
  contents :: request_contents
  config :: request_config

record images_request =
  ir_model :: jsstring
  ir_prompt :: jsstring
  numberOfImages :: int
  ir_aspectRatio :: aspect_ratio
  outputMimeType :: jsstring

text \<open>
  \<open>GenerateContentResponse\<close>, as far as the service reads it: the \<open>text\<close> accessor and
  \<open>candidates[].content.parts[]\<close> with \<open>inlineData.data\<close> and \<open>text\<close>; and the response
  of \<open>generateImages\<close>: \<open>generatedImages[].image.imageBytes\<close>. Every link may be missing.
\<close>

record inline_data =
  data :: "jsstring option"

record part =
  inlineData :: "inline_data option"
  part_text :: "jsstring option"

record content =
  content_parts :: "part list option"

record candidate =
  candidate_content :: "content option"

record content_response =
  response_text :: "jsstring option"
  candidates :: "candidate list option"

record image =
  imageBytes :: "jsstring option"

record generated_image =
  gi_image :: "image option"

record images_response =
  generatedImages :: "generated_image list option"

text \<open>Optional chaining \<open>a?.[0]\<close> and \<open>a?.f\<close>.\<close>

fun first_of :: "'a list option \<Rightarrow> 'a option" where
  "first_of None = None"
| "first_of (Some []) = None"
| "first_of (Some (x # xs)) = Some x"

fun chain :: "'a option \<Rightarrow> ('a \<Rightarrow> 'b option) \<Rightarrow> 'b option" where
  "chain None f = None"
| "chain (Some x) f = f x"

text \<open>
  What the service takes from its surroundings: the stored key
  (\<open>localStorage.getItem("gemini_api_key")\<close>), the process-level key
  (\<open>process.env.API_KEY\<close>), \<open>JSON.parse\<close> (\<open>None\<close> when it raises SyntaxError), \<open>atob\<close>
  (\<open>Inl\<close> the exception it raises), and the two calls of the provider's SDK, each made
  with the API key of the client.
\<close>

record 'p host =
  localKey :: "jsstring option"
  envKey :: "jsstring option"
  JSON_parse :: "jsstring \<Rightarrow> json option"
  atob :: "jsstring \<Rightarrow> js_error + jsstring"
  generateContent :: "jsstring \<Rightarrow> content_request \<Rightarrow> ('p, content_response) operation"
  generateImages :: "jsstring \<Rightarrow> images_request \<Rightarrow> ('p, images_response) operation"

section \<open>The service\<close>

text \<open>\<open>getAI\<close>: the client is represented by the API key it is built with.\<close>

definition getAI :: "'p host \<Rightarrow> js_error + jsstring" where
  "getAI h =
     (let key = (if truthy_str (localKey h) then localKey h else envKey h)
      in if \<not> truthy_str key
         then Inl (Error (js ''API Key is missing. Please set it in Settings.''))
         else Inr (the key))"




text \<open>
  \<open>generateImage\<close>. \<open>response_parts\<close> is \<open>response.candidates?.[0]?.content?.parts || []\<close>.
  \<open>tier1_result\<close> is the first \<open>try\<close> block with its \<open>catch\<close>, applied to the outcome of the
  retried call: it either returns the PNG data URI (\<open>Inr\<close>) or leaves \<open>lastError\<close>
  (\<open>Inl\<close>), which replaces the initial \<open>new Error("Unknown error")\<close> on every path that
  reaches the second block. The second block never assigns \<open>lastError\<close>, its \<open>catch\<close>
  only logs; \<open>first_image_bytes\<close> is its
  \<open>response.generatedImages?.[0]?.image?.imageBytes\<close>. The final
  \<^verbatim>\<open>throw lastError || new Error("Image generation failed. Please check your API Key.")\<close>
  always throws \<open>lastError\<close>, which is an error object on every path.
\<close>

definition response_parts :: "content_response \<Rightarrow> part list" where
  "response_parts response =
     (case chain (chain (first_of (candidates response)) candidate_content) content_parts of
        Some ps \<Rightarrow> ps
      | None \<Rightarrow> [])"

definition tier1_result :: "js_error + content_response \<Rightarrow> js_error + jsstring" where
  "tier1_result r =
     (case r of
        Inl error \<Rightarrow> Inl error
      | Inr response \<Rightarrow>
          (let parts = response_parts response;
               imagePart = find (\<lambda>p. inlineData p \<noteq> None) parts
           in case imagePart of
                Some p \<Rightarrow> Inr (js ''data:image/png;base64,'' @ template (data (the (inlineData p))))
              | None \<Rightarrow>
                  (case find (\<lambda>p. truthy_str (part_text p)) parts of
                     Some textPart \<Rightarrow>
                       Inl (Error (js ''AI Refusal: '' @
                                   substring0 (the (part_text textPart)) 100 @ js ''...''))
                   | None \<Rightarrow> Inl (Error (js ''API returned empty data.'')))))"

definition first_image_bytes :: "images_response \<Rightarrow> jsstring option" where
  "first_image_bytes response =
     chain (chain (first_of (generatedImages response)) gi_image) imageBytes"

definition generateImage ::
  "'p host \<Rightarrow> jsstring \<Rightarrow> aspect_ratio \<Rightarrow> 'p world \<Rightarrow> (js_error + jsstring) \<times> 'p world" where
  "generateImage h prompt aspectRatio w =
     (case getAI h of
        Inl e \<Rightarrow> (Inl e, w)
      | Inr ai \<Rightarrow>
          (case withRetry
                  (generateContent h ai
                     \<lparr>model = js ''gemini-2.5-flash-image'',
                      contents = PromptParts prompt,
                      config = ImageConfig aspectRatio\<rparr>)
                  2 default_delay w of
             (r1, w1) \<Rightarrow>
               (case tier1_result r1 of
                  Inr url \<Rightarrow> (Inr url, w1)
                | Inl lastError \<Rightarrow>
                    (case withRetry
                            (generateImages h ai
                               \<lparr>ir_model = js ''imagen-3.0-generate-001'',
                                ir_prompt = prompt,
                                numberOfImages = 1,
                                ir_aspectRatio = aspectRatio,
                                outputMimeType = js ''image/jpeg''\<rparr>)
                            2 default_delay w1 of
                       (Inr response, w2) \<Rightarrow>
                         (let base64 = first_image_bytes response
                          in if truthy_str base64
                             then (Inr (js ''data:image/jpeg;base64,'' @ the base64), w2)
                             else (Inl lastError, w2))
                     | (Inl error, w2) \<Rightarrow> (Inl lastError, w2)))))"



section \<open>Audio utilities\<close>

text \<open>
  Numbers are JavaScript Numbers; the finite ones that occur here are modelled as
  rationals. \<open>DataView.setUint16\<close> / \<open>setUint32\<close> convert their argument with
  ToUint16 / ToUint32: truncate towards zero, then reduce modulo \<open>2^16\<close> / \<open>2^32\<close>.
\<close>

definition js_trunc :: "rat \<Rightarrow> int" where
  "js_trunc x = (if 0 \<le> x then \<lfloor>x\<rfloor> else \<lceil>x\<rceil>)"

definition ToUint16 :: "rat \<Rightarrow> 16 word" where
  "ToUint16 x = word_of_int (js_trunc x)"

definition ToUint32 :: "rat \<Rightarrow> 32 word" where
  "ToUint32 x = word_of_int (js_trunc x)"

text \<open>
  A \<open>DataView\<close> over an \<open>ArrayBuffer\<close> is the list of its bytes. A write outside the
  buffer raises RangeError in JavaScript; every offset written by \<open>createWavHeader\<close>
  is a literal inside its 44-byte buffer, so the writes are modelled as list updates.
\<close>

definition setUint8 :: "u8 list \<Rightarrow> nat \<Rightarrow> u8 \<Rightarrow> u8 list" where
  "setUint8 view byteOffset v = view[byteOffset := v]"

definition setUint16 :: "u8 list \<Rightarrow> nat \<Rightarrow> rat \<Rightarrow> bool \<Rightarrow> u8 list" where
  "setUint16 view byteOffset v littleEndian =
     (let w = ToUint16 v; b0 = ucast w; b1 = ucast (drop_bit 8 w)
      in if littleEndian
         then view[byteOffset := b0, byteOffset + 1 := b1]
         else view[byteOffset := b1, byteOffset + 1 := b0])"

definition setUint32 :: "u8 list \<Rightarrow> nat \<Rightarrow> rat \<Rightarrow> bool \<Rightarrow> u8 list" where
  "setUint32 view byteOffset v littleEndian =
     (let w = ToUint32 v;
          b0 = ucast w; b1 = ucast (drop_bit 8 w);
          b2 = ucast (drop_bit 16 w); b3 = ucast (drop_bit 24 w)
      in if littleEndian
         then view[byteOffset := b0, byteOffset + 1 := b1,
                   byteOffset + 2 := b2, byteOffset + 3 := b3]
         else view[byteOffset := b3, byteOffset + 1 := b2,
                   byteOffset + 2 := b1, byteOffset + 3 := b0])"

text \<open>
  \<^verbatim>\<open>for (let i = 0; i < string.length; i++) view.setUint8(offset + i, string.charCodeAt(i))\<close>;
  \<open>setUint8\<close> keeps the low 8 bits of the code unit.
\<close>

definition writeString :: "u8 list \<Rightarrow> nat \<Rightarrow> jsstring \<Rightarrow> u8 list" where
  "writeString view offset string =
     fold (\<lambda>i v. setUint8 v (offset + i) (ucast (string ! i))) [0..<length string] view"

text \<open>
  \<open>TypedArray.prototype.set(source, offset)\<close>: copies \<open>source\<close> into the target from
  \<open>offset\<close> on (RangeError when it does not fit; in \<open>createWavHeader\<close> it always fits).
\<close>

definition typed_array_set :: "u8 list \<Rightarrow> u8 list \<Rightarrow> nat \<Rightarrow> u8 list" where
  "typed_array_set target source offset =
     take offset target @ source @ drop (offset + length source) target"

definition createWavHeader :: "u8 list \<Rightarrow> rat \<Rightarrow> rat \<Rightarrow> rat \<Rightarrow> u8 list" where
  "createWavHeader pcmData sampleRate numChannels bitsPerSample =
     (let header = replicate 44 0;
          pcmLength = length pcmData;
          dataSize = pcmLength;
          fileSize = 36 + dataSize;
          byteRate = sampleRate * numChannels * (bitsPerSample / 8);
          blockAlign = numChannels * (bitsPerSample / 8);
          view = writeString header 0 (js ''RIFF'');
          view = setUint32 view 4 (of_nat fileSize) True;
          view = writeString view 8 (js ''WAVE'');
          view = writeString view 12 (js ''fmt '');
          view = setUint32 view 16 16 True;
          view = setUint16 view 20 1 True;
          view = setUint16 view 22 numChannels True;
          view = setUint32 view 24 sampleRate True;
          view = setUint32 view 28 byteRate True;
          view = setUint16 view 32 blockAlign True;
          view = setUint16 view 34 bitsPerSample True;
          view = writeString view 36 (js ''data'');
          view = setUint32 view 40 (of_nat dataSize) True;
          wavFile = replicate (length view + pcmLength) 0;
          wavFile = typed_array_set wavFile view 0;
          wavFile = typed_array_set wavFile pcmData 44
      in wavFile)"

text \<open>Readers of the encoded container (\<open>DataView.getUint16/32\<close>, little-endian).\<close>

definition getUint16_le :: "u8 list \<Rightarrow> nat \<Rightarrow> nat" where
  "getUint16_le bs off = unat (bs ! off) + 256 * unat (bs ! (off + 1))"



definition le16 :: "16 word \<Rightarrow> u8 list" where
  "le16 w = [ucast w, ucast (drop_bit 8 w)]"


text \<open>
  \<open>pcmBase64ToWavUrl\<close>: the decoded characters are stored into a \<open>Uint8Array\<close> (which
  keeps the low 8 bits), wrapped with the header for 24 kHz, mono, 16-bit PCM, and put
  into a \<open>Blob\<close>. The object URL is represented by the bytes of that blob.
\<close>

definition pcmBase64ToWavUrl :: "'p host \<Rightarrow> jsstring \<Rightarrow> js_error + u8 list" where
  "pcmBase64ToWavUrl h base64Pcm =
     (case atob h base64Pcm of
        Inl e \<Rightarrow> Inl e
      | Inr binaryString \<Rightarrow>
          (let bytes = map ucast binaryString;
               sampleRate = 24000;
               numChannels = 1;
               bitsPerSample = 16;
               wavBytes = createWavHeader bytes sampleRate numChannels bitsPerSample
           in Inr wavBytes))"



section \<open>Vocabulary of the retry properties\<close>

text \<open>
  The record of a run in which the operation is attempted \<open>n + 1\<close> times and the wait
  before attempt \<open>k + 1\<close> (attempts counted from 0) is \<open>d * 2^k\<close>.
\<close>

definition backoff_schedule :: "int \<Rightarrow> nat \<Rightarrow> step list" where
  "backoff_schedule d n = concat (map (\<lambda>k. [Attempt, Wait (d * 2 ^ k)]) [0..<n]) @ [Attempt]"


section \<open>Vocabulary of the panel properties\<close>





section \<open>Example inputs\<close>


definition bad_request :: js_error where
  "bad_request = (Error (js ''Bad Request''))\<lparr>status := Some (JNum 400)\<rparr>"



definition idle :: "nat world" where
  "idle = \<lparr>remote = 0, steps = []\<rparr>"





text \<open>
  A host whose image model answers with the given parts and whose fallback model gives
  the given outcome.
\<close>

definition image_host :: "part list \<Rightarrow> js_error + images_response \<Rightarrow> nat host" where
  "image_host ps fallback =
     \<lparr>localKey = Some (js ''K''), envKey = None,
      JSON_parse = (\<lambda>s. None), atob = (\<lambda>s. Inr s),
      generateContent =
        (\<lambda>key req hist p.
           (Inr \<lparr>response_text = None,
                 candidates = Some [\<lparr>candidate_content = Some \<lparr>content_parts = Some ps\<rparr>\<rparr>]\<rparr>,
            Suc p)),
      generateImages = (\<lambda>key req hist p. (fallback, Suc p))\<rparr>"

definition refusal_part :: part where
  "refusal_part = \<lparr>inlineData = None, part_text = Some (js ''I cannot draw this.'')\<rparr>"

definition one_image :: images_response where
  "one_image = \<lparr>generatedImages = Some [\<lparr>gi_image = Some \<lparr>imageBytes = Some (js ''QUJD'')\<rparr>\<rparr>]\<rparr>"




text \<open>Rosters and panels for the fuzzy match.\<close>

definition alice :: Character where
  "alice =
     \<lparr>c_id = js ''c1'', c_name = js ''Alice'', c_description = js ''the pilot'',
      c_visualPrompt = js ''silver hair, blue eyes'', c_imageUrl = None, c_defaultVoice = None\<rparr>"

definition al :: Character where
  "al =
     \<lparr>c_id = js ''c2'', c_name = js ''Al'', c_description = js ''the mechanic'',
      c_visualPrompt = js ''tall, red scarf'', c_imageUrl = None, c_defaultVoice = None\<rparr>"

definition duo_panel :: "jsstring ScriptPanel" where
  "duo_panel =
     \<lparr>panelNumber = 1, description = js ''They meet'',
      charactersPresent = [js ''AliceSmith'', js ''Bob''],
      dialogue = None, cameraAngle = Some (js ''Wide'')\<rparr>"

definition alice_panel :: "jsstring ScriptPanel" where
  "alice_panel =
     \<lparr>panelNumber = 2, description = js ''She waits'',
      charactersPresent = [js ''Alice'', js ''AliceSmith''],
      dialogue = None, cameraAngle = Some (js ''Wide'')\<rparr>"



section \<open>Properties of the WAV encoder\<close>

lemma le16_bytes:
  fixes w :: "16 word"
  shows "unat (ucast w :: u8) + 256 * unat (ucast (drop_bit 8 w) :: u8) = unat w"
proof -
  have b: "unat w < 256 * 256" using unsigned_less [of w, where ?'a = nat] by simp
  have 0: "unat (ucast w :: u8) = unat w mod 256"
    by (simp only: unsigned_ucast_eq) (simp add: take_bit_eq_mod)
  have 1: "unat (ucast (drop_bit 8 w) :: u8) = unat w div 256 mod 256"
    by (simp only: unsigned_ucast_eq unat_drop_bit_eq) (simp add: take_bit_eq_mod drop_bit_eq_div)
  from b have "unat w div 256 < 256" by (simp add: less_mult_imp_div_less)
  then have "unat w div 256 mod 256 = unat w div 256" by simp
  with 0 1 show ?thesis by simp
qed



lemma getUint16_le_le16:
  "length pre = off \<Longrightarrow> getUint16_le (pre @ le16 w @ rest) off = unat w"
  by (simp add: getUint16_le_def le16_def nth_append le16_bytes)










lemma pcmBase64ToWavUrl_bytes:
  "atob h base64Pcm = Inr binaryString \<Longrightarrow>
   pcmBase64ToWavUrl h base64Pcm = Inr (createWavHeader (map ucast binaryString) 24000 1 16)"
  by (simp add: pcmBase64ToWavUrl_def)




section \<open>Properties of the retry helper\<close>

lemma backoff_schedule_0: "backoff_schedule d 0 = [Attempt]"
  by (simp add: backoff_schedule_def)

lemma backoff_schedule_Suc:
  "backoff_schedule d (Suc n) = Attempt # Wait d # backoff_schedule (d * 2) n"
proof -
  have "[0..<Suc n] = 0 # map Suc [0..<n]"
    by (simp add: upt_conv_Cons map_Suc_upt del: upt_Suc)
  then show ?thesis
    by (simp add: backoff_schedule_def comp_def mult.assoc del: upt_Suc)
qed

lemma length_backoff_schedule: "length (backoff_schedule d n) = 2 * n + 1"
  by (induction n arbitrary: d) (simp_all add: backoff_schedule_0 backoff_schedule_Suc)






lemma withRetry_success:
  assumes "fn (steps w) (remote w) = (Inr v, p)"
  shows "withRetry fn N d w = (Inr v, \<lparr>remote = p, steps = steps w @ [Attempt]\<rparr>)"
  using assms by (simp add: withRetry.simps [of fn N d w])










lemma isTransient_iff:
  "isTransient e \<longleftrightarrow>
     error_status e \<in> {Some (JNum 500), Some (JNum 502), Some (JNum 503), Some (JNum 504)} \<or>
     (\<exists>s \<in> {js ''Rpc failed'', js ''xhr error'', js ''fetch failed'', js ''NetworkError'',
              js ''Load failed'', js ''network timeout''}. str_includes (error_msg e) s)"
  by (auto simp add: isTransient_def Let_def)


lemma bad_request_classification:
  "error_status bad_request = Some (JNum 400)"
  "error_msg bad_request = js ''Bad Request''"
  by (simp_all add: bad_request_def Error_def error_status_def error_msg_def js_or_def js_def)

lemma bad_request_no_pattern:
  "\<not> str_includes (js ''Bad Request'') (js ''Rpc failed'')"
  "\<not> str_includes (js ''Bad Request'') (js ''xhr error'')"
  "\<not> str_includes (js ''Bad Request'') (js ''fetch failed'')"
  "\<not> str_includes (js ''Bad Request'') (js ''NetworkError'')"
  "\<not> str_includes (js ''Bad Request'') (js ''Load failed'')"
  "\<not> str_includes (js ''Bad Request'') (js ''network timeout'')"
  by (simp_all add: js_def)


section \<open>Credentials\<close>





section \<open>Entity extraction\<close>





section \<open>Tiered image generation\<close>

lemma withRetry_steps_extend:
  "\<exists>rest. steps (snd (withRetry fn N d w)) = steps w @ Attempt # rest"
proof (induction fn N d w rule: withRetry.induct)
  case (1 fn retries delay w)
  obtain r p where f: "fn (steps w) (remote w) = (r, p)" by (cases "fn (steps w) (remote w)")
  show ?case
  proof (cases r)
    case (Inr v)
    with f show ?thesis by (simp add: withRetry.simps [of fn retries delay w])
  next
    case (Inl a)
    show ?thesis
    proof (cases "0 < retries \<and> isTransient a")
      case False
      with f Inl show ?thesis by (auto simp add: withRetry.simps [of fn retries delay w])
    next
      case True
      from "1.IH" [OF f [symmetric] Inl True] obtain rest where
        "steps (snd (withRetry fn (retries - 1) (delay * 2)
            \<lparr>remote = p, steps = steps w @ [Attempt, Wait delay]\<rparr>)) =
         steps \<lparr>remote = p, steps = steps w @ [Attempt, Wait delay]\<rparr> @ Attempt # rest"
        by blast
      with f Inl True show ?thesis
        by (simp add: withRetry.simps [of fn retries delay w])
    qed
  qed
qed

text \<open>The failure \<open>generateImage\<close> keeps from its first tier, by the outcome of that tier.\<close>

lemma tier1_result_failure:
  "tier1_result (Inl e1) = Inl e1"
  "find (\<lambda>p. inlineData p \<noteq> None) (response_parts response) = None \<Longrightarrow>
   find (\<lambda>p. truthy_str (part_text p)) (response_parts response) = Some textPart \<Longrightarrow>
   tier1_result (Inr response) =
     Inl (Error (js ''AI Refusal: '' @ substring0 (the (part_text textPart)) 100 @ js ''...''))"
  "find (\<lambda>p. inlineData p \<noteq> None) (response_parts response) = None \<Longrightarrow>
   find (\<lambda>p. truthy_str (part_text p)) (response_parts response) = None \<Longrightarrow>
   tier1_result (Inr response) = Inl (Error (js ''API returned empty data.''))"
  by (simp_all add: tier1_result_def)

lemma generateImage_fallback:
  assumes "getAI h = Inr key"
    and "withRetry
           (generateContent h key
              \<lparr>model = js ''gemini-2.5-flash-image'', contents = PromptParts prompt,
               config = ImageConfig ratio\<rparr>)
           2 default_delay w = (r1, w1)"
    and "withRetry
           (generateImages h key
              \<lparr>ir_model = js ''imagen-3.0-generate-001'', ir_prompt = prompt,
               numberOfImages = 1, ir_aspectRatio = ratio,
               outputMimeType = js ''image/jpeg''\<rparr>)
           2 default_delay w1 = (r2, w2)"
    and "tier1_result r1 = Inl lastError"
  shows "snd (generateImage h prompt ratio w) = w2"
    and "\<exists>rest. steps w2 = steps w1 @ Attempt # rest"
    and "r2 = Inr images \<Longrightarrow> first_image_bytes images = Some b \<Longrightarrow> b \<noteq> [] \<Longrightarrow>
         generateImage h prompt ratio w = (Inr (js ''data:image/jpeg;base64,'' @ b), w2)"
    and "(\<exists>e2. r2 = Inl e2) \<or> (\<exists>images. r2 = Inr images \<and> \<not> truthy_str (first_image_bytes images)) \<Longrightarrow>
         generateImage h prompt ratio w = (Inl lastError, w2)"
proof -
  show "snd (generateImage h prompt ratio w) = w2"
    using assms by (cases r2) (simp_all add: generateImage_def Let_def)
  show "\<exists>rest. steps w2 = steps w1 @ Attempt # rest"
    using withRetry_steps_extend [of "generateImages h key
              \<lparr>ir_model = js ''imagen-3.0-generate-001'', ir_prompt = prompt,
               numberOfImages = 1, ir_aspectRatio = ratio,
               outputMimeType = js ''image/jpeg''\<rparr>" 2 default_delay w1] assms(3)
    by simp
  show "r2 = Inr images \<Longrightarrow> first_image_bytes images = Some b \<Longrightarrow> b \<noteq> [] \<Longrightarrow>
         generateImage h prompt ratio w = (Inr (js ''data:image/jpeg;base64,'' @ b), w2)"
    using assms by (simp add: generateImage_def Let_def)
  show "(\<exists>e2. r2 = Inl e2) \<or> (\<exists>images. r2 = Inr images \<and> \<not> truthy_str (first_image_bytes images)) \<Longrightarrow>
         generateImage h prompt ratio w = (Inl lastError, w2)"
    using assms by (auto simp add: generateImage_def Let_def)
qed

text \<open>
  C3. Let the first tier's retried call end in \<open>r1\<close> and the fallback call, started from
  the world the first tier left, end in \<open>r2\<close>. If the first tier's response has a text
  part and no inline image, the fallback model is attempted (with the request for one
  JPEG image at the given aspect ratio); if it returns an image payload, the result is
  that payload as a JPEG data URI and no failure; if it yields no image, the failure
  is the refusal captured from the first tier. Likewise the failure is the
  empty-response diagnostic when the first tier's response had neither part, and the
  first tier's own failure when its call failed: the fallback's failure is never the
  one carried.
\<close>

theorem generateImage_tiers:
  "getAI h = Inr key \<and>
   withRetry
     (generateContent h key
        \<lparr>model = js ''gemini-2.5-flash-image'', contents = PromptParts prompt,
         config = ImageConfig ratio\<rparr>)
     2 default_delay w = (r1, w1) \<and>
   withRetry
     (generateImages h key
        \<lparr>ir_model = js ''imagen-3.0-generate-001'', ir_prompt = prompt,
         numberOfImages = 1, ir_aspectRatio = ratio, outputMimeType = js ''image/jpeg''\<rparr>)
     2 default_delay w1 = (r2, w2) \<and>
   (r1 = Inr response \<and>
    find (\<lambda>p. inlineData p \<noteq> None) (response_parts response) = None \<and>
    find (\<lambda>p. truthy_str (part_text p)) (response_parts response) = Some textPart \<and>
    lastError = Error (js ''AI Refusal: '' @ substring0 (the (part_text textPart)) 100 @ js ''...'')
    \<or>
    r1 = Inr response \<and>
    find (\<lambda>p. inlineData p \<noteq> None) (response_parts response) = None \<and>
    find (\<lambda>p. truthy_str (part_text p)) (response_parts response) = None \<and>
    lastError = Error (js ''API returned empty data.'')
    \<or>
    r1 = Inl lastError) \<longrightarrow>
   snd (generateImage h prompt ratio w) = w2 \<and>
   (\<exists>rest. steps w2 = steps w1 @ Attempt # rest) \<and>
   (r2 = Inr images \<and> first_image_bytes images = Some b \<and> b \<noteq> [] \<longrightarrow>
      generateImage h prompt ratio w = (Inr (js ''data:image/jpeg;base64,'' @ b), w2)) \<and>
   (r2 = Inl e2 \<longrightarrow> generateImage h prompt ratio w = (Inl lastError, w2)) \<and>
   (r2 = Inr images \<and> \<not> truthy_str (first_image_bytes images) \<longrightarrow>
      generateImage h prompt ratio w = (Inl lastError, w2))"
proof (intro impI)
  assume a: "getAI h = Inr key \<and>
   withRetry
     (generateContent h key
        \<lparr>model = js ''gemini-2.5-flash-image'', contents = PromptParts prompt,
         config = ImageConfig ratio\<rparr>)
     2 default_delay w = (r1, w1) \<and>
   withRetry
     (generateImages h key
        \<lparr>ir_model = js ''imagen-3.0-generate-001'', ir_prompt = prompt,
         numberOfImages = 1, ir_aspectRatio = ratio, outputMimeType = js ''image/jpeg''\<rparr>)
     2 default_delay w1 = (r2, w2) \<and>
   (r1 = Inr response \<and>
    find (\<lambda>p. inlineData p \<noteq> None) (response_parts response) = None \<and>
    find (\<lambda>p. truthy_str (part_text p)) (response_parts response) = Some textPart \<and>
    lastError = Error (js ''AI Refusal: '' @ substring0 (the (part_text textPart)) 100 @ js ''...'')
    \<or>
    r1 = Inr response \<and>
    find (\<lambda>p. inlineData p \<noteq> None) (response_parts response) = None \<and>
    find (\<lambda>p. truthy_str (part_text p)) (response_parts response) = None \<and>
    lastError = Error (js ''API returned empty data.'')
    \<or>
    r1 = Inl lastError)"
  then have t: "tier1_result r1 = Inl lastError"
    using tier1_result_failure by auto
  note f = generateImage_fallback [OF a [THEN conjunct1] a [THEN conjunct2, THEN conjunct1]
      a [THEN conjunct2, THEN conjunct2, THEN conjunct1] t]
  show "snd (generateImage h prompt ratio w) = w2 \<and>
   (\<exists>rest. steps w2 = steps w1 @ Attempt # rest) \<and>
   (r2 = Inr images \<and> first_image_bytes images = Some b \<and> b \<noteq> [] \<longrightarrow>
      generateImage h prompt ratio w = (Inr (js ''data:image/jpeg;base64,'' @ b), w2)) \<and>
   (r2 = Inl e2 \<longrightarrow> generateImage h prompt ratio w = (Inl lastError, w2)) \<and>
   (r2 = Inr images \<and> \<not> truthy_str (first_image_bytes images) \<longrightarrow>
      generateImage h prompt ratio w = (Inl lastError, w2))"
    using f by blast
qed

lemma bad_request_not_transient: "\<not> isTransient bad_request"
  by (simp add: isTransient_iff bad_request_classification bad_request_no_pattern)

lemma image_host_tier1:
  "withRetry (generateContent (image_host ps fallback) key req) N d w =
     (Inr \<lparr>response_text = None,
           candidates = Some [\<lparr>candidate_content = Some \<lparr>content_parts = Some ps\<rparr>\<rparr>]\<rparr>,
      \<lparr>remote = Suc (remote w), steps = steps w @ [Attempt]\<rparr>)"
  by (subst withRetry.simps) (simp add: image_host_def)

lemma image_host_tier2:
  "withRetry (generateImages (image_host ps (Inr images)) key req) N d w =
     (Inr images, \<lparr>remote = Suc (remote w), steps = steps w @ [Attempt]\<rparr>)"
  "withRetry (generateImages (image_host ps (Inl bad_request)) key req) N d w =
     (Inl bad_request, \<lparr>remote = Suc (remote w), steps = steps w @ [Attempt]\<rparr>)"
  by (subst withRetry.simps, simp add: image_host_def bad_request_not_transient)+

lemma image_host_key: "getAI (image_host ps fallback) = Inr (js ''K'')"
  by (simp add: getAI_def image_host_def js_def)

lemma refusal_parts:
  "response_parts \<lparr>response_text = None,
     candidates = Some [\<lparr>candidate_content = Some \<lparr>content_parts = Some [refusal_part]\<rparr>\<rparr>]\<rparr> =
   [refusal_part]"
  "find (\<lambda>p. inlineData p \<noteq> None) [refusal_part] = None"
  "find (\<lambda>p. truthy_str (part_text p)) [refusal_part] = Some refusal_part"
  "Error (js ''AI Refusal: '' @ substring0 (the (part_text refusal_part)) 100 @ js ''...'') =
   Error (js ''AI Refusal: I cannot draw this....'')"
  "first_image_bytes one_image = Some (js ''QUJD'')"
  by (simp_all add: response_parts_def refusal_part_def substring0_def js_def
      first_image_bytes_def one_image_def)

theorem generateImage_tiers_witness:
  "getAI (image_host [refusal_part] (Inr one_image)) = Inr (js ''K'') \<and>
   find (\<lambda>p. inlineData p \<noteq> None) [refusal_part] = None \<and>
   find (\<lambda>p. truthy_str (part_text p)) [refusal_part] = Some refusal_part \<and>
   generateImage (image_host [refusal_part] (Inr one_image)) (js ''a cat'') Ratio_16_9 idle =
     (Inr (js ''data:image/jpeg;base64,QUJD''), \<lparr>remote = 2, steps = [Attempt, Attempt]\<rparr>) \<and>
   generateImage (image_host [refusal_part] (Inl bad_request)) (js ''a cat'') Ratio_16_9 idle =
     (Inl (Error (js ''AI Refusal: I cannot draw this....'')),
      \<lparr>remote = 2, steps = [Attempt, Attempt]\<rparr>)"
proof -
  let ?resp = "\<lparr>response_text = None,
     candidates = Some [\<lparr>candidate_content = Some \<lparr>content_parts = Some [refusal_part]\<rparr>\<rparr>]\<rparr>"
  let ?w1 = "\<lparr>remote = 1, steps = [Attempt]\<rparr> :: nat world"
  let ?w2 = "\<lparr>remote = 2, steps = [Attempt, Attempt]\<rparr> :: nat world"
  let ?err = "Error (js ''AI Refusal: I cannot draw this....'')"
  have i: "remote idle = 0" "steps idle = []" by (simp_all add: idle_def)
  note t1 = generateImage_tiers [where h = "image_host [refusal_part] (Inr one_image)"
      and key = "js ''K''" and prompt = "js ''a cat''" and ratio = Ratio_16_9 and w = idle
      and ?r1.0 = "Inr ?resp" and ?w1.0 = ?w1 and ?r2.0 = "Inr one_image" and ?w2.0 = ?w2
      and response = ?resp and textPart = refusal_part and lastError = ?err
      and images = one_image and b = "js ''QUJD''" and ?e2.0 = bad_request]
  note t2 = generateImage_tiers [where h = "image_host [refusal_part] (Inl bad_request)"
      and key = "js ''K''" and prompt = "js ''a cat''" and ratio = Ratio_16_9 and w = idle
      and ?r1.0 = "Inr ?resp" and ?w1.0 = ?w1 and ?r2.0 = "Inl bad_request" and ?w2.0 = ?w2
      and response = ?resp and textPart = refusal_part and lastError = ?err
      and images = one_image and b = "js ''QUJD''" and ?e2.0 = bad_request]
  have 1: "generateImage (image_host [refusal_part] (Inr one_image)) (js ''a cat'') Ratio_16_9 idle =
     (Inr (js ''data:image/jpeg;base64,QUJD''), ?w2)"
    using t1 by (simp add: image_host_key image_host_tier1 image_host_tier2 i refusal_parts)
       (simp add: js_def refusal_part_def)
  have 2: "generateImage (image_host [refusal_part] (Inl bad_request)) (js ''a cat'') Ratio_16_9 idle =
     (Inl ?err, ?w2)"
    using t2 by (simp add: image_host_key image_host_tier1 image_host_tier2 i refusal_parts)
       (simp add: js_def refusal_part_def)
  from 1 2 image_host_key refusal_parts(2,3) show ?thesis by simp
qed

section \<open>Panel analysis\<close>

lemma str_includes_empty: "str_includes s []"
  by (cases s) simp_all
















section \<open>Prompt assembly\<close>

lemma fold_inject_character:
  "fold (inject_character characters) names prompt =
     prompt @ concat (map (\<lambda>charName. inject_character characters charName []) names)"
proof (induction names arbitrary: prompt)
  case Nil
  then show ?case by simp
next
  case (Cons n names)
  have "inject_character characters n prompt = prompt @ inject_character characters n []"
    by (simp add: inject_character_def split: option.splits)
  with Cons show ?case by simp
qed

lemma inject_character_line:
  "inject_character characters charName [] =
     js ''\<newline>- ('' @ charName @ js ''): '' @
     (case find (fuzzy_match charName) characters of
        Some charObj \<Rightarrow> c_visualPrompt charObj
      | None \<Rightarrow> js ''Generic anime character.'')"
  by (simp add: inject_character_def js_def split: option.splits)

lemma find_first_match:
  "find P xs = Some x \<longleftrightarrow> (\<exists>i < length xs. xs ! i = x \<and> P x \<and> (\<forall>j < i. \<not> P (xs ! j)))"
  by (auto simp add: find_Some_iff)

text \<open>
  C4 (as amended). For a panel that names characters, the prompt is the prompt of the
  same panel without characters, then the \<open>[CHARACTERS]\<close> heading, then one line per
  name in order. The line of a name carries the visual DNA of the first roster
  character, in roster order, whose name equals the panel name, is contained in it, or
  contains it; when no roster character does, it is the generic placeholder line.
\<close>

theorem constructPanelPrompt_characters:
  "(charactersPresent panel \<noteq> [] \<longrightarrow>
      constructPanelPrompt panel characters scene =
        constructPanelPrompt (panel\<lparr>charactersPresent := []\<rparr>) characters scene @
        js ''\<newline>[CHARACTERS]:'' @
        concat (map (\<lambda>charName.
                       js ''\<newline>- ('' @ charName @ js ''): '' @
                       (case find (fuzzy_match charName) characters of
                          Some charObj \<Rightarrow> c_visualPrompt charObj
                        | None \<Rightarrow> js ''Generic anime character.''))
                  (charactersPresent panel))) \<and>
   (find (fuzzy_match charName) characters = Some c \<longleftrightarrow>
      (\<exists>i < length characters.
          characters ! i = c \<and>
          (c_name c = charName \<or> str_includes charName (c_name c) \<or>
           str_includes (c_name c) charName) \<and>
          (\<forall>j < i. c_name (characters ! j) \<noteq> charName \<and>
                   \<not> str_includes charName (c_name (characters ! j)) \<and>
                   \<not> str_includes (c_name (characters ! j)) charName))) \<and>
   (find (fuzzy_match charName) characters = None \<longleftrightarrow>
      (\<forall>c \<in> set characters.
          c_name c \<noteq> charName \<and> \<not> str_includes charName (c_name c) \<and>
          \<not> str_includes (c_name c) charName))"
proof (intro conjI impI)
  assume "charactersPresent panel \<noteq> []"
  then show "constructPanelPrompt panel characters scene =
        constructPanelPrompt (panel\<lparr>charactersPresent := []\<rparr>) characters scene @
        js ''\<newline>[CHARACTERS]:'' @
        concat (map (\<lambda>charName.
                       js ''\<newline>- ('' @ charName @ js ''): '' @
                       (case find (fuzzy_match charName) characters of
                          Some charObj \<Rightarrow> c_visualPrompt charObj
                        | None \<Rightarrow> js ''Generic anime character.''))
                  (charactersPresent panel))"
    by (simp add: constructPanelPrompt_def Let_def fold_inject_character inject_character_line
        split: option.splits)
next
  show "find (fuzzy_match charName) characters = Some c \<longleftrightarrow>
      (\<exists>i < length characters.
          characters ! i = c \<and>
          (c_name c = charName \<or> str_includes charName (c_name c) \<or>
           str_includes (c_name c) charName) \<and>
          (\<forall>j < i. c_name (characters ! j) \<noteq> charName \<and>
                   \<not> str_includes charName (c_name (characters ! j)) \<and>
                   \<not> str_includes (c_name (characters ! j)) charName))"
    unfolding find_first_match by (simp add: fuzzy_match_def)
next
  show "find (fuzzy_match charName) characters = None \<longleftrightarrow>
      (\<forall>c \<in> set characters.
          c_name c \<noteq> charName \<and> \<not> str_includes charName (c_name c) \<and>
          \<not> str_includes (c_name c) charName)"
    by (auto simp add: find_None_iff fuzzy_match_def)
qed

lemma roster_matches:
  "fuzzy_match (js ''AliceSmith'') alice" "\<not> fuzzy_match (js ''Bob'') alice"
  "fuzzy_match (js ''Alice'') al" "fuzzy_match (js ''AliceSmith'') al"
  "c_name alice = js ''Alice''" "c_name al \<noteq> js ''Alice''"
  "c_visualPrompt alice = js ''silver hair, blue eyes''"
  "c_visualPrompt al = js ''tall, red scarf''"
  by (simp_all add: fuzzy_match_def alice_def al_def js_def)

theorem constructPanelPrompt_characters_witness:
  "charactersPresent duo_panel \<noteq> [] \<and>
   find (fuzzy_match (js ''AliceSmith'')) [alice] = Some alice \<and>
   find (fuzzy_match (js ''Bob'')) [alice] = None \<and>
   constructPanelPrompt duo_panel [alice] None =
     js ''(Anime Style Masterpiece, 8k Resolution, Cinematic Composition). '' @
     js ''\<newline>[ACTION & SHOT] **Wide**. They meet. '' @
     js ''\<newline>[LOCATION] Atmospheric background, matching the mood. '' @
     js ''\<newline>[CHARACTERS]:'' @
     js ''\<newline>- (AliceSmith): silver hair, blue eyes'' @
     js ''\<newline>- (Bob): Generic anime character.''"
proof -
  have n: "charactersPresent duo_panel \<noteq> []" by (simp add: duo_panel_def)
  have f: "find (fuzzy_match (js ''AliceSmith'')) [alice] = Some alice"
    "find (fuzzy_match (js ''Bob'')) [alice] = None"
    by (simp_all add: roster_matches)
  have h: "constructPanelPrompt (duo_panel\<lparr>charactersPresent := []\<rparr>) [alice] None =
     js ''(Anime Style Masterpiece, 8k Resolution, Cinematic Composition). '' @
     js ''\<newline>[ACTION & SHOT] **Wide**. They meet. '' @
     js ''\<newline>[LOCATION] Atmospheric background, matching the mood. ''"
    by (simp add: constructPanelPrompt_def duo_panel_def js_def)
  have c: "charactersPresent duo_panel = [js ''AliceSmith'', js ''Bob'']"
    by (simp add: duo_panel_def)
  from constructPanelPrompt_characters [of duo_panel "[alice]" None, THEN conjunct1] n
  have "constructPanelPrompt duo_panel [alice] None =
        constructPanelPrompt (duo_panel\<lparr>charactersPresent := []\<rparr>) [alice] None @
        js ''\<newline>[CHARACTERS]:'' @
        concat (map (\<lambda>charName.
                       js ''\<newline>- ('' @ charName @ js ''): '' @
                       (case find (fuzzy_match charName) [alice] of
                          Some charObj \<Rightarrow> c_visualPrompt charObj
                        | None \<Rightarrow> js ''Generic anime character.''))
                  (charactersPresent duo_panel))"
    by blast
  then have "constructPanelPrompt duo_panel [alice] None =
     js ''(Anime Style Masterpiece, 8k Resolution, Cinematic Composition). '' @
     js ''\<newline>[ACTION & SHOT] **Wide**. They meet. '' @
     js ''\<newline>[LOCATION] Atmospheric background, matching the mood. '' @
     js ''\<newline>[CHARACTERS]:'' @
     js ''\<newline>- (AliceSmith): silver hair, blue eyes'' @
     js ''\<newline>- (Bob): Generic anime character.''"
    unfolding h c by (simp add: roster_matches) (simp add: js_def)
  with n f show ?thesis by simp
qed

text \<open>
  C4 as stated fails: with the roster \<open>Al\<close>, \<open>Alice\<close> (in that order) the panel name
  \<open>Alice\<close> is resolved to \<open>Al\<close>, found first because \<open>Alice\<close> contains \<open>Al\<close>, although the
  roster has the exact match \<open>Alice\<close>; and \<open>AliceSmith\<close> is resolved to \<open>Al\<close> as well,
  although the roster contains \<open>Alice\<close>.
\<close>

theorem constructPanelPrompt_first_match_wins:
  "resolve_exact_first [al, alice] (js ''Alice'') = Some alice \<and>
   find (fuzzy_match (js ''Alice'')) [al, alice] = Some al \<and>
   find (fuzzy_match (js ''AliceSmith'')) [al, alice] = Some al \<and>
   c_visualPrompt al \<noteq> c_visualPrompt alice \<and>
   constructPanelPrompt alice_panel [al, alice] None =
     js ''(Anime Style Masterpiece, 8k Resolution, Cinematic Composition). '' @
     js ''\<newline>[ACTION & SHOT] **Wide**. She waits. '' @
     js ''\<newline>[LOCATION] Atmospheric background, matching the mood. '' @
     js ''\<newline>[CHARACTERS]:'' @
     js ''\<newline>- (Alice): tall, red scarf'' @
     js ''\<newline>- (AliceSmith): tall, red scarf''"
proof -
  have 1: "resolve_exact_first [al, alice] (js ''Alice'') = Some alice"
    by (simp add: resolve_exact_first_def roster_matches)
  have 2: "find (fuzzy_match (js ''Alice'')) [al, alice] = Some al"
    "find (fuzzy_match (js ''AliceSmith'')) [al, alice] = Some al"
    by (simp_all add: roster_matches)
  have 3: "c_visualPrompt al \<noteq> c_visualPrompt alice"
    by (simp add: roster_matches js_def)
  have 4: "constructPanelPrompt alice_panel [al, alice] None =
     js ''(Anime Style Masterpiece, 8k Resolution, Cinematic Composition). '' @
     js ''\<newline>[ACTION & SHOT] **Wide**. She waits. '' @
     js ''\<newline>[LOCATION] Atmospheric background, matching the mood. '' @
     js ''\<newline>[CHARACTERS]:'' @
     js ''\<newline>- (Alice): tall, red scarf'' @
     js ''\<newline>- (AliceSmith): tall, red scarf''"
    by (simp add: constructPanelPrompt_def alice_panel_def inject_character_def 2 roster_matches)
       (simp add: js_def)
  from 1 2 3 4 show ?thesis by simp
qed










end
